theory Spec2Isabelle
  imports Main "HOL-Library.Log_Nat" "HOL-Library.Word"
begin

section \<open>Python values used by the server\<close>

subsection \<open>Strings\<close>

text \<open>
  Strings are lists of 8-bit characters, so the model covers requests whose voice names are
  ASCII (every key of the voice maps is). \<open>str.lower\<close> maps the 26 capital letters to
  their small forms and leaves every other character alone.
\<close>

definition lower_char :: "char \<Rightarrow> char" where
  "lower_char c =
     (case map_of (zip ''ABCDEFGHIJKLMNOPQRSTUVWXYZ'' ''abcdefghijklmnopqrstuvwxyz'') c of
        None \<Rightarrow> c
      | Some d \<Rightarrow> d)"

definition lower :: "string \<Rightarrow> string" where
  "lower s = map lower_char s"

text \<open>\<open>str\<close> of a Python integer: decimal digits, a minus sign before a negative one.\<close>

definition digit_char :: "nat \<Rightarrow> char" where
  "digit_char d = ''0123456789'' ! d"

function str_nat :: "nat \<Rightarrow> string" where
  "str_nat n = (if n < 10 then [digit_char n] else str_nat (n div 10) @ [digit_char (n mod 10)])"
  by pat_completeness auto
termination
  by (relation "measure (\<lambda>n. n)") auto

declare str_nat.simps [simp del]

definition str_int :: "int \<Rightarrow> string" where
  "str_int i = (if i < 0 then CHR ''-'' # str_nat (nat (- i)) else str_nat (nat i))"

subsection \<open>Floats\<close>

text \<open>
  A Python float is an IEEE 754 binary64 number. A finite one is modelled by the rational it
  denotes, and every arithmetic operation rounds its exact result to the nearest number with
  a 53-bit significand, ties to even. The exponent is left unbounded: the values that occur
  here (a speed in the interval from 0.5 to 2, its difference with 1 and a hundred times
  that) are far from overflow and underflow.
\<close>

definition ilog2 :: "rat \<Rightarrow> int" where
  \<comment> \<open>for \<open>0 < x\<close>, the exponent \<open>e\<close> with \<open>2 powi e \<le> x < 2 powi (e + 1)\<close>\<close>
  "ilog2 x = (let (p, q) = quotient_of x; d = bitlen p - bitlen q
              in if 2 powi d \<le> x then d else d - 1)"

definition rne :: "rat \<Rightarrow> int" where
  \<comment> \<open>nearest integer, ties to the even one\<close>
  "rne y = (let f = \<lfloor>y\<rfloor>; r = y - of_int f
            in if r < 1 / 2 then f else if 1 / 2 < r then f + 1
               else if even f then f else f + 1)"

definition rnd :: "rat \<Rightarrow> rat" where
  "rnd x = (if x = 0 then 0
            else let e = ilog2 \<bar>x\<bar> - 52 in of_int (rne (x / 2 powi e)) * 2 powi e)"

definition is_double :: "rat \<Rightarrow> bool" where
  "is_double x \<longleftrightarrow> (\<exists>k n. \<bar>k\<bar> < 2 ^ 53 \<and> x = of_int k * 2 powi n)"

definition fsub :: "rat \<Rightarrow> rat \<Rightarrow> rat" where
  "fsub a b = rnd (a - b)"

definition fmul :: "rat \<Rightarrow> rat \<Rightarrow> rat" where
  "fmul a b = rnd (a * b)"

definition py_int :: "rat \<Rightarrow> int" where
  \<comment> \<open>\<open>int(x)\<close> of a float: truncation towards zero\<close>
  "py_int x = (if 0 \<le> x then \<lfloor>x\<rfloor> else - \<lfloor>- x\<rfloor>)"

section \<open>The request and the model table\<close>

record TTSParameters =
  model :: string
  input :: string
  voice :: string
  response_format :: "string option"
  speed :: "rat option"
  volume :: "rat option"

text \<open>
  The schema admits a request only when \<open>speed\<close> is absent (\<open>null\<close>) or a float from 0.5
  to 2.0, and \<open>volume\<close> is absent or a float from 0.5 to 3.0.
\<close>

definition valid_TTSParameters :: "TTSParameters \<Rightarrow> bool" where
  "valid_TTSParameters r \<longleftrightarrow>
     (case speed r of None \<Rightarrow> True | Some s \<Rightarrow> is_double s \<and> 1 / 2 \<le> s \<and> s \<le> 2) \<and>
     (case volume r of None \<Rightarrow> True | Some v \<Rightarrow> is_double v \<and> 1 / 2 \<le> v \<and> v \<le> 3)"

record config =
  quality :: string
  allowed_formats :: "string list"
  voice_map :: "(string \<times> string) list"

definition MODEL_CONFIG :: "(string \<times> config) list" where
  "MODEL_CONFIG =
     [(''tts-1'',
       \<lparr>quality = ''standard'', allowed_formats = [''mp3''],
        voice_map = [(''alloy'', ''en-US-GuyNeural''), (''echo'', ''en-US-JennyNeural''),
                     (''nova'', ''zh-CN-YunxiNeural'')]\<rparr>),
      (''tts-1-hd'',
       \<lparr>quality = ''enhanced'', allowed_formats = [''mp3''],
        voice_map = [(''alloy'', ''en-US-AriaNeural''), (''echo'', ''en-US-DavisNeural''),
                     (''nova'', ''zh-CN-YunjianNeural'')]\<rparr>)]"

section \<open>Exceptions, log records and observable actions\<close>

text \<open>
  The texts of the error and log messages are fixed templates of the source with values
  spliced in; a message is modelled by a constructor that carries the spliced values.
\<close>

datatype detail =
    Unsupported_model string
  | Unsupported_format string "string option"
  | Unsupported_voice string string

datatype exn =
    HTTPException nat detail
  | ValueError string
  | TypeError
  | PipeError
  | Raised string
  | CancelledError
  | GeneratorExit

text \<open>
  \<open>except Exception\<close> catches the subclasses of \<open>Exception\<close>. \<open>CancelledError\<close> and
  \<open>GeneratorExit\<close> derive from \<open>BaseException\<close> only and pass through it.
\<close>

fun is_Exception :: "exn \<Rightarrow> bool" where
  "is_Exception CancelledError = False"
| "is_Exception GeneratorExit = False"
| "is_Exception _ = True"

type_synonym bytes = "8 word list"

datatype chunk = Chunk (chunk_type: string) (chunk_data: bytes)

datatype stdio = PIPE | DEVNULL | INHERIT

datatype log_entry =
    Write_failed exn
  | Generate_failed exn

datatype action =
    ListVoices
  | Communicate string string string
  | Pull chunk
  | Spawn "string list" stdio stdio stdio
  | CreateTask
  | Yield bytes
  | Write bytes
  | Drain
  | CloseStdin
  | WaitClosed
  | WaitProc
  | CancelWriter
  | AwaitWriter
  | Log log_entry

section \<open>The environment\<close>

text \<open>
  Everything the server awaits comes from outside: the provider's voice catalogue and audio
  stream, the filter process and the consumer of the response body. A run of the server is a
  function of these.

  \<^item> \<open>chunks\<close> are the items \<open>communicate.stream()\<close> delivers; \<open>failure\<close> is the exception
    it raises after them, if any.
  \<^item> \<open>list_voices\<close> is the list of the \<open>ShortName\<close>s of the catalogue, or the exception of
    the call.
  \<^item> \<open>communicate\<close> gives, for a text, a voice and a rate, the stream of the provider, or
    the exception raised when the \<open>Communicate\<close> object is built.
  \<^item> \<open>str_float\<close> is Python's formatting of a float inside an f-string.
  \<^item> \<open>spawn_error\<close> is the exception of \<open>create_subprocess_exec\<close>, if it raises.
  \<^item> \<open>drain_fails_at\<close> is the index of the first write to the filter's input whose
    \<open>drain\<close> raises (the pipe is broken), if any.
  \<^item> \<open>reads\<close> are the results of the successive calls \<open>proc.stdout.read(4096)\<close>: an
    exception or a block of bytes, the empty block being the end of the channel. Past the
    end of the list the call never returns.
  \<^item> \<open>wait_returns\<close> tells whether \<open>proc.wait()\<close>, called after the input of the filter
    was closed, ever returns, that is, whether the process exits.
\<close>

record source =
  chunks :: "chunk list"
  failure :: "string option"

record env =
  list_voices :: "string + string list"
  communicate :: "string \<Rightarrow> string \<Rightarrow> string \<Rightarrow> string + source"
  str_float :: "rat \<Rightarrow> string"
  spawn_error :: "string option"
  drain_fails_at :: "nat option"
  reads :: "(string + bytes) list"
  wait_returns :: bool

text \<open>
  The consumer of the generator either pulls until the generator ends, or closes it while it
  is suspended at its \<open>n\<close>-th \<open>yield\<close> (\<open>GeneratorExit\<close> is raised there; with \<open>n = 0\<close>
  the generator is closed before it was ever resumed), or is cancelled while the generator
  awaits the next block after \<open>n\<close> yields (\<open>CancelledError\<close> is raised at that await).
  Cancellation is delivered once; a second cancellation during the clean-up is not modelled.
\<close>

datatype consumer = PullAll | StopAfter nat | CancelAtRead nat

datatype outcome = Finished | Raises exn | Hangs

datatype proc_state = Not_spawned | Running | Exited

record run =
  trace :: "action list"
  result :: outcome
  process :: proc_state

definition prepend :: "action list \<Rightarrow> run \<Rightarrow> run" where
  "prepend ts r = r\<lparr>trace := ts @ trace r\<rparr>"

section \<open>\<open>write_audio\<close>\<close>

text \<open>
  The loop of \<open>write_audio\<close>. \<open>n\<close> counts the writes made so far. The result is the
  actions performed and the exception that ended the loop, if any.
\<close>

fun write_loop :: "bool \<Rightarrow> nat option \<Rightarrow> nat \<Rightarrow> chunk list \<Rightarrow> action list \<times> exn option" where
  "write_loop has_stdin d n [] = ([], None)"
| "write_loop has_stdin d n (c # cs) =
     (if chunk_type c = ''audio'' \<and> has_stdin then
        (if d = Some n then ([Pull c, Write (chunk_data c), Drain], Some PipeError)
         else (case write_loop has_stdin d (Suc n) cs of
                 (t, x) \<Rightarrow> (Pull c # Write (chunk_data c) # Drain # t, x)))
      else (case write_loop has_stdin d n cs of (t, x) \<Rightarrow> (Pull c # t, x)))"

definition write_audio_try :: "source \<Rightarrow> bool \<Rightarrow> nat option \<Rightarrow> action list \<times> exn option" where
  \<comment> \<open>the body of the \<open>try\<close>\<close>
  "write_audio_try src has_stdin d =
     (case write_loop has_stdin d 0 (chunks src) of
        (t, Some e) \<Rightarrow> (t, Some e)
      | (t, None) \<Rightarrow>
          (case failure src of
             Some m \<Rightarrow> (t, Some (Raised m))
           | None \<Rightarrow> if has_stdin then (t @ [CloseStdin, WaitClosed], None) else (t, None)))"

definition write_audio :: "source \<Rightarrow> bool \<Rightarrow> nat option \<Rightarrow> action list \<times> exn option" where
  \<comment> \<open>the coroutine, run until it returns: its actions and the exception that leaves it\<close>
  "write_audio src has_stdin d =
     (case write_audio_try src has_stdin d of
        (t, Some e) \<Rightarrow> if is_Exception e then (t @ [Log (Write_failed e)], None) else (t, Some e)
      | (t, None) \<Rightarrow> (t, None))"

section \<open>\<open>generate_edge_audio\<close>\<close>

definition real_voice_of :: "config \<Rightarrow> string \<Rightarrow> string" where
  "real_voice_of cfg vc = (case map_of (voice_map cfg) (lower vc) of Some v \<Rightarrow> v | None \<Rightarrow> vc)"

text \<open>
  The rate. On a \<open>null\<close> speed the comparison in \<open>min\<close> and the subtraction raise
  \<open>TypeError\<close>. The literal \<open>0.8\<close> is the float nearest to 4/5.
\<close>

definition clamp_speed :: "config \<Rightarrow> rat option \<Rightarrow> exn + rat option" where
  "clamp_speed cfg spd =
     (if quality cfg = ''enhanced'' then
        (case spd of None \<Rightarrow> Inl TypeError
         | Some s \<Rightarrow> Inr (Some (max (rnd (4 / 5)) (min s (3 / 2)))))
      else Inr spd)"

definition rate_percent :: "rat \<Rightarrow> int" where
  "rate_percent s = py_int (fmul (fsub s 1) 100)"

definition rate_of :: "rat option \<Rightarrow> exn + string" where
  "rate_of spd =
     (if spd \<noteq> Some 1 then
        (case spd of None \<Rightarrow> Inl TypeError
         | Some s \<Rightarrow> Inr (''+'' @ str_int (rate_percent s) @ ''%''))
      else Inr ''+0%'')"

definition compute_rate :: "config \<Rightarrow> rat option \<Rightarrow> exn + string" where
  "compute_rate cfg spd = (case clamp_speed cfg spd of Inl e \<Rightarrow> Inl e | Inr s \<Rightarrow> rate_of s)"

definition str_volume :: "env \<Rightarrow> rat option \<Rightarrow> string" where
  "str_volume E vol = (case vol of None \<Rightarrow> ''None'' | Some v \<Rightarrow> str_float E v)"

definition ffmpeg_cmd :: "string \<Rightarrow> string list" where
  "ffmpeg_cmd v =
     [''ffmpeg'', ''-i'', ''pipe:0'', ''-af'', ''volume='' @ v, ''-f'', ''mp3'',
      ''-loglevel'', ''quiet'', ''pipe:1'']"

definition writer_task :: "env \<Rightarrow> source \<Rightarrow> action list \<times> exn option" where
  \<comment> \<open>the task created from \<open>write_audio(communicate, proc.stdin)\<close>, left to run\<close>
  "writer_task E src = write_audio src True (drain_fails_at E)"

datatype loop_exit = Break | Exc exn | Blocked

text \<open>The reading loop of the filtered path; \<open>n\<close> counts the blocks yielded so far.\<close>

fun read_loop :: "consumer \<Rightarrow> nat \<Rightarrow> (string + bytes) list \<Rightarrow> action list \<times> loop_exit" where
  "read_loop c n [] = (if c = CancelAtRead n then ([], Exc CancelledError) else ([], Blocked))"
| "read_loop c n (Inl m # rs) =
     (if c = CancelAtRead n then ([], Exc CancelledError) else ([], Exc (Raised m)))"
| "read_loop c n (Inr b # rs) =
     (if c = CancelAtRead n then ([], Exc CancelledError)
      else if b = [] then ([], Break)
      else if c = StopAfter (Suc n) then ([Yield b], Exc GeneratorExit)
      else (case read_loop c (Suc n) rs of (t, x) \<Rightarrow> (Yield b # t, x)))"

text \<open>
  The \<open>finally\<close> block, entered with the way the loop was left. \<open>proc.stdin\<close> is a pipe,
  so it is closed; then the process is awaited, without a time limit; only when that
  returns is the writer cancelled and awaited. Awaiting the writer raises what the writer
  raised, except \<open>CancelledError\<close>, which is dropped.
\<close>

definition cleanup :: "env \<Rightarrow> source \<Rightarrow> outcome \<Rightarrow> run" where
  "cleanup E src pending =
     (if wait_returns E then
        \<lparr>trace = [CloseStdin, WaitProc, CancelWriter, AwaitWriter],
         result = (case snd (writer_task E src) of
                     None \<Rightarrow> pending
                   | Some e \<Rightarrow> if e = CancelledError then pending else Raises e),
         process = Exited\<rparr>
      else \<lparr>trace = [CloseStdin, WaitProc], result = Hangs, process = Running\<rparr>)"

definition filtered :: "env \<Rightarrow> source \<Rightarrow> string \<Rightarrow> consumer \<Rightarrow> run" where
  "filtered E src v c =
     (case spawn_error E of
        Some m \<Rightarrow>
          \<lparr>trace = [Spawn (ffmpeg_cmd v) PIPE PIPE PIPE], result = Raises (Raised m),
           process = Not_spawned\<rparr>
      | None \<Rightarrow>
          prepend [Spawn (ffmpeg_cmd v) PIPE PIPE PIPE, CreateTask]
            (case read_loop c 0 (reads E) of
               (t, Blocked) \<Rightarrow> \<lparr>trace = t, result = Hangs, process = Running\<rparr>
             | (t, Break) \<Rightarrow> prepend t (cleanup E src Finished)
             | (t, Exc e) \<Rightarrow> prepend t (cleanup E src (Raises e))))"

text \<open>The loop of the unfiltered path; \<open>n\<close> counts the chunks yielded so far.\<close>

fun direct_loop :: "consumer \<Rightarrow> nat \<Rightarrow> chunk list \<Rightarrow> string option \<Rightarrow> action list \<times> outcome" where
  "direct_loop c n [] f =
     (if c = CancelAtRead n then ([], Raises CancelledError)
      else (case f of None \<Rightarrow> ([], Finished) | Some m \<Rightarrow> ([], Raises (Raised m))))"
| "direct_loop c n (ch # chs) f =
     (if c = CancelAtRead n then ([], Raises CancelledError)
      else if chunk_type ch = ''audio'' then
        (if c = StopAfter (Suc n) then ([Pull ch, Yield (chunk_data ch)], Raises GeneratorExit)
         else (case direct_loop c (Suc n) chs f of
                 (t, x) \<Rightarrow> (Pull ch # Yield (chunk_data ch) # t, x)))
      else (case direct_loop c n chs f of (t, x) \<Rightarrow> (Pull ch # t, x)))"

definition direct :: "source \<Rightarrow> consumer \<Rightarrow> run" where
  "direct src c =
     (case direct_loop c 0 (chunks src) (failure src) of
        (t, x) \<Rightarrow> \<lparr>trace = t, result = x, process = Not_spawned\<rparr>)"

definition generate_try :: "env \<Rightarrow> string \<Rightarrow> config \<Rightarrow> string \<Rightarrow> rat option \<Rightarrow> rat option \<Rightarrow> consumer \<Rightarrow> run" where
  \<comment> \<open>the body of the outer \<open>try\<close>\<close>
  "generate_try E txt cfg vc spd vol c =
     (let real_voice = real_voice_of cfg vc in
      case list_voices E of
        Inl m \<Rightarrow> \<lparr>trace = [ListVoices], result = Raises (Raised m), process = Not_spawned\<rparr>
      | Inr all_voices \<Rightarrow>
          if real_voice \<notin> set all_voices then
            \<lparr>trace = [ListVoices], result = Raises (ValueError real_voice), process = Not_spawned\<rparr>
          else
            (case compute_rate cfg spd of
               Inl e \<Rightarrow> \<lparr>trace = [ListVoices], result = Raises e, process = Not_spawned\<rparr>
             | Inr rate \<Rightarrow>
                 (case communicate E txt real_voice rate of
                    Inl m \<Rightarrow>
                      \<lparr>trace = [ListVoices, Communicate txt real_voice rate],
                       result = Raises (Raised m), process = Not_spawned\<rparr>
                  | Inr src \<Rightarrow>
                      prepend [ListVoices, Communicate txt real_voice rate]
                        (if vol \<noteq> Some 1 then filtered E src (str_volume E vol) c
                         else direct src c))))"

definition log_and_reraise :: "run \<Rightarrow> run" where
  \<comment> \<open>\<open>except Exception as e: logger.error(...); raise\<close>\<close>
  "log_and_reraise r =
     (case result r of
        Raises e \<Rightarrow> if is_Exception e then r\<lparr>trace := trace r @ [Log (Generate_failed e)]\<rparr> else r
      | _ \<Rightarrow> r)"

definition generate_edge_audio :: "env \<Rightarrow> string \<Rightarrow> config \<Rightarrow> string \<Rightarrow> rat option \<Rightarrow> rat option \<Rightarrow> consumer \<Rightarrow> run" where
  "generate_edge_audio E txt cfg vc spd vol c =
     (if c = StopAfter 0 then \<lparr>trace = [], result = Raises GeneratorExit, process = Not_spawned\<rparr>
      else log_and_reraise (generate_try E txt cfg vc spd vol c))"

section \<open>\<open>create_speech\<close>\<close>

record gen_call =
  g_text :: string
  g_config :: config
  g_voice :: string
  g_speed :: "rat option"
  g_volume :: "rat option"

record error_body =
  message :: exn
  error_type :: string
  code :: nat

datatype response =
    StreamingResponse gen_call string "(string \<times> string) list"
  | Error_dict error_body

definition str_opt :: "string option \<Rightarrow> string" where
  "str_opt x = (case x of None \<Rightarrow> ''None'' | Some s \<Rightarrow> s)"

definition create_speech_try :: "TTSParameters \<Rightarrow> exn + response" where
  \<comment> \<open>the body of the \<open>try\<close>\<close>
  "create_speech_try request =
     (case map_of MODEL_CONFIG (model request) of
        None \<Rightarrow> Inl (HTTPException 400 (Unsupported_model (model request)))
      | Some cfg \<Rightarrow>
          if (case response_format request of None \<Rightarrow> True
              | Some f \<Rightarrow> f \<notin> set (allowed_formats cfg)) then
            Inl (HTTPException 400 (Unsupported_format (model request) (response_format request)))
          else
            (let vc = lower (voice request) in
             if map_of (voice_map cfg) vc = None then
               Inl (HTTPException 400 (Unsupported_voice (model request) (voice request)))
             else
               Inr (StreamingResponse
                      \<lparr>g_text = input request, g_config = cfg, g_voice = vc,
                       g_speed = speed request, g_volume = volume request\<rparr>
                      (''audio/'' @ str_opt (response_format request))
                      [(''Content-Disposition'', ''attachment; filename=speech.mp3''),
                       (''OpenAI-Processing-Ms'', ''800'')])))"

definition create_speech_except :: "exn \<Rightarrow> exn + response" where
  \<comment> \<open>the two handlers: \<open>HTTPException\<close> is raised again, any other \<open>Exception\<close> is returned\<close>
  "create_speech_except e =
     (case e of
        HTTPException c d \<Rightarrow> Inl (HTTPException c d)
      | _ \<Rightarrow> if is_Exception e then
               Inr (Error_dict \<lparr>message = e, error_type = ''invalid_request_error'', code = 500\<rparr>)
             else Inl e)"

definition create_speech :: "TTSParameters \<Rightarrow> exn + response" where
  "create_speech request =
     (case create_speech_try request of Inl e \<Rightarrow> create_speech_except e | Inr r \<Rightarrow> Inr r)"

text \<open>
  The status the framework puts on the wire: the code of a raised \<open>HTTPException\<close>, and 200
  for a value the endpoint returns (a response object built without a status, or a
  dictionary, which is sent as JSON).
\<close>

definition http_status :: "exn + response \<Rightarrow> nat option" where
  "http_status r =
     (case r of Inl (HTTPException c d) \<Rightarrow> Some c | Inl _ \<Rightarrow> None | Inr _ \<Rightarrow> Some 200)"

text \<open>
  Serving a request: the endpoint, then, when it returned a streaming response, the
  generator run against the consumer of the body.
\<close>

definition serve :: "env \<Rightarrow> TTSParameters \<Rightarrow> consumer \<Rightarrow> run option" where
  "serve E request c =
     (case create_speech request of
        Inr (StreamingResponse g mt hs) \<Rightarrow>
          Some (generate_edge_audio E (g_text g) (g_config g) (g_voice g) (g_speed g) (g_volume g) c)
      | _ \<Rightarrow> None)"

section \<open>Reading a trace\<close>

fun yields :: "action list \<Rightarrow> bytes list" where
  "yields [] = []"
| "yields (Yield b # t) = b # yields t"
| "yields (_ # t) = yields t"

fun pulled :: "action list \<Rightarrow> chunk list" where
  "pulled [] = []"
| "pulled (Pull c # t) = c # pulled t"
| "pulled (_ # t) = pulled t"


fun is_Spawn :: "action \<Rightarrow> bool" where
  "is_Spawn (Spawn cmd i out err) = True"
| "is_Spawn _ = False"



fun is_Log :: "action \<Rightarrow> bool" where
  "is_Log (Log l) = True"
| "is_Log _ = False"

definition is_audio :: "chunk \<Rightarrow> bool" where
  "is_audio c \<longleftrightarrow> chunk_type c = ''audio''"


section \<open>Scenarios\<close>

text \<open>The two entries of the model table, and concrete environments used to run the server.\<close>

definition tts_1 :: config where
  "tts_1 =
     \<lparr>quality = ''standard'', allowed_formats = [''mp3''],
      voice_map = [(''alloy'', ''en-US-GuyNeural''), (''echo'', ''en-US-JennyNeural''),
                   (''nova'', ''zh-CN-YunxiNeural'')]\<rparr>"

definition tts_1_hd :: config where
  "tts_1_hd =
     \<lparr>quality = ''enhanced'', allowed_formats = [''mp3''],
      voice_map = [(''alloy'', ''en-US-AriaNeural''), (''echo'', ''en-US-DavisNeural''),
                   (''nova'', ''zh-CN-YunjianNeural'')]\<rparr>"

definition catalogue :: "string list" where
  "catalogue =
     [''en-US-GuyNeural'', ''en-US-JennyNeural'', ''zh-CN-YunxiNeural'', ''en-US-AriaNeural'',
      ''en-US-DavisNeural'', ''zh-CN-YunjianNeural'']"

definition three_chunks :: source where
  "three_chunks =
     \<lparr>chunks = [Chunk ''audio'' [1, 2], Chunk ''WordBoundary'' [], Chunk ''audio'' [3]],
      failure = None\<rparr>"

definition quiet_env :: env where
  \<comment> \<open>a provider that streams \<open>three_chunks\<close>, a filter that emits two blocks and exits\<close>
  "quiet_env =
     \<lparr>list_voices = Inr catalogue, communicate = (\<lambda>t v r. Inr three_chunks),
      str_float = (\<lambda>v. ''2.0''), spawn_error = None, drain_fails_at = None,
      reads = [Inr [7], Inr [8, 9], Inr []], wait_returns = True\<rparr>"

definition hello :: TTSParameters where
  "hello =
     \<lparr>model = ''tts-1'', input = ''hello'', voice = ''nova'', response_format = Some ''mp3'',
      speed = Some 1, volume = Some 1\<rparr>"

definition shimmer_wav :: TTSParameters where
  "shimmer_wav = hello\<lparr>voice := ''shimmer'', response_format := Some ''wav''\<rparr>"

definition louder :: TTSParameters where
  "louder = hello\<lparr>volume := Some 2\<rparr>"


definition failing_source :: source where
  \<comment> \<open>the provider delivers one audio chunk and then fails\<close>
  "failing_source = \<lparr>chunks = [Chunk ''audio'' [1, 2]], failure = Some ''connection lost''\<rparr>"

definition starved_env :: env where
  \<comment> \<open>the filter emits one block and then waits for more input, which stays open\<close>
  "starved_env =
     quiet_env\<lparr>communicate := (\<lambda>t v r. Inr failing_source), reads := [Inr [7]]\<rparr>"


section \<open>Properties of the float operations\<close>

lemma rne_of_int: "rne (of_int k) = k"
  by (simp add: rne_def)

lemma rne_bounds: "of_int (rne y) \<le> y + 1 / 2" "y - 1 / 2 \<le> of_int (rne y)"
  unfolding rne_def Let_def by (auto; linarith)+

lemma rne_mono:
  assumes "x \<le> y" shows "rne x \<le> rne y"
proof -
  have fl: "\<lfloor>x\<rfloor> \<le> \<lfloor>y\<rfloor>" using assms by (rule floor_mono)
  show ?thesis
  proof (cases "\<lfloor>x\<rfloor> = \<lfloor>y\<rfloor>")
    case True
    then show ?thesis using assms unfolding rne_def Let_def by auto
  next
    case False
    then have "\<lfloor>x\<rfloor> + 1 \<le> \<lfloor>y\<rfloor>" using fl by linarith
    moreover have "rne x \<le> \<lfloor>x\<rfloor> + 1" unfolding rne_def Let_def by auto
    moreover have "\<lfloor>y\<rfloor> \<le> rne y" unfolding rne_def Let_def by auto
    ultimately show ?thesis by linarith
  qed
qed

lemma ilog2_lower:
  assumes "0 < x" shows "2 powi (ilog2 x) \<le> x"
proof -
  obtain p q where pq: "quotient_of x = (p, q)" by force
  have q: "0 < q" using pq by (rule quotient_of_denom_pos)
  have x: "x = of_int p / of_int q" using pq by (rule quotient_of_div)
  have p: "0 < p" using assms q unfolding x by (simp add: zero_less_divide_iff)
  define d where "d = bitlen p - bitlen q"
  show ?thesis
  proof (cases "2 powi d \<le> x")
    case True
    then show ?thesis by (simp add: ilog2_def pq d_def)
  next
    case False
    have bp: "2 ^ nat (bitlen p - 1) \<le> p" using bitlen_bounds[OF p] by simp
    have bq: "q < 2 ^ nat (bitlen q)" using bitlen_bounds[OF q] by simp
    have bp1: "1 \<le> bitlen p" using p by (simp add: bitlen_alt_def)
    have bq0: "0 \<le> bitlen q" by (rule bitlen_nonneg)
    have "(2::rat) powi (d - 1) = 2 powi (bitlen p - 1) / 2 powi (bitlen q)"
      unfolding d_def by (simp add: power_int_diff power_int_add algebra_simps)
    also have "\<dots> = of_int (2 ^ nat (bitlen p - 1)) / of_int (2 ^ nat (bitlen q))"
      using bp1 bq0 by (simp add: power_int_def)
    also have "\<dots> \<le> of_int p / of_int (2 ^ nat (bitlen q))"
      using bp by (intro divide_right_mono) (simp_all del: of_int_power)
    also have "\<dots> \<le> of_int p / of_int q"
      using bq q p by (intro divide_left_mono) (simp_all del: of_int_power add: less_imp_le)
    finally have "2 powi (d - 1) \<le> x" unfolding x .
    then show ?thesis using False by (simp add: ilog2_def pq d_def)
  qed
qed

lemma ilog2_upper:
  assumes "0 < x" shows "x < 2 powi (ilog2 x + 1)"
proof -
  obtain p q where pq: "quotient_of x = (p, q)" by force
  have q: "0 < q" using pq by (rule quotient_of_denom_pos)
  have x: "x = of_int p / of_int q" using pq by (rule quotient_of_div)
  have p: "0 < p" using assms q unfolding x by (simp add: zero_less_divide_iff)
  define d where "d = bitlen p - bitlen q"
  show ?thesis
  proof (cases "2 powi d \<le> x")
    case False
    then show ?thesis by (simp add: ilog2_def pq d_def)
  next
    case True
    have bp: "p < 2 ^ nat (bitlen p)" using bitlen_bounds[OF p] by simp
    have bq: "2 ^ nat (bitlen q - 1) \<le> q" using bitlen_bounds[OF q] by simp
    have bp1: "0 \<le> bitlen p" by (rule bitlen_nonneg)
    have bq0: "1 \<le> bitlen q" using q by (simp add: bitlen_alt_def)
    have "x = of_int p / of_int q" by (rule x)
    also have "\<dots> < of_int (2 ^ nat (bitlen p)) / of_int q"
      using bp q by (intro divide_strict_right_mono) (simp_all del: of_int_power)
    also have "\<dots> \<le> of_int (2 ^ nat (bitlen p)) / of_int (2 ^ nat (bitlen q - 1))"
      using bq q by (intro divide_left_mono) (simp_all del: of_int_power)
    also have "\<dots> = (2::rat) powi (bitlen p) / 2 powi (bitlen q - 1)"
      using bp1 bq0 by (simp add: power_int_def)
    also have "\<dots> = 2 powi (d + 1)"
      unfolding d_def by (simp add: power_int_diff power_int_add algebra_simps)
    finally have "x < 2 powi (d + 1)" .
    then show ?thesis using True by (simp add: ilog2_def pq d_def)
  qed
qed


lemma pow2_less_cancel:
  assumes "(2::rat) powi a < 2 powi b" shows "a < b"
proof (rule ccontr)
  assume "\<not> a < b"
  then have "b \<le> a" by simp
  then have "(2::rat) powi b \<le> 2 powi a" by (intro power_int_increasing) simp_all
  with assms show False by simp
qed

lemma rnd_exact:
  assumes k: "\<bar>k\<bar> < 2 ^ 53"
  shows "rnd (of_int k * 2 powi n) = of_int k * 2 powi n"
proof (cases "k = 0")
  case True
  then show ?thesis by (simp add: rnd_def)
next
  case False
  define x :: rat where "x = of_int k * 2 powi n"
  define e where "e = ilog2 \<bar>x\<bar> - 52"
  have x0: "x \<noteq> 0" using False by (simp add: x_def)
  have absx: "\<bar>x\<bar> = of_int \<bar>k\<bar> * 2 powi n" by (simp add: x_def abs_mult)
  have "2 powi (e + 52) \<le> \<bar>x\<bar>" using ilog2_lower[of "\<bar>x\<bar>"] x0 by (simp add: e_def)
  also have "\<bar>x\<bar> < of_int (2 ^ 53) * 2 powi n"
    unfolding absx using k by (intro mult_strict_right_mono) (simp_all del: of_int_power)
  also have "\<dots> = 2 powi (53 + n)" by (simp add: power_int_add)
  finally have "e + 52 < 53 + n" by (rule pow2_less_cancel)
  then have en: "e \<le> n" by simp
  have "x / 2 powi e = of_int k * 2 powi (n - e)"
    by (simp add: x_def power_int_diff)
  also have "\<dots> = of_int (k * 2 ^ nat (n - e))"
    using en by (simp add: power_int_def)
  finally have r: "rne (x / 2 powi e) = k * 2 ^ nat (n - e)" by (simp only: rne_of_int)
  have pe: "(2::rat) powi (n - e) = 2 ^ nat (n - e)" using en by (simp add: power_int_def)
  have "(of_int (rne (x / 2 powi e)) :: rat) * 2 powi e = of_int k * (2 powi (n - e) * 2 powi e)"
    unfolding r by (simp add: pe)
  also have "\<dots> = x" by (simp add: x_def power_int_diff)
  finally show ?thesis using x0 by (simp add: rnd_def x_def[symmetric] e_def[symmetric] Let_def)
qed

lemma rnd_le_minus_one:
  assumes "x \<le> - 1"
  shows "rnd x \<le> - 1"
proof -
  define i where "i = ilog2 \<bar>x\<bar>"
  define e where "e = i - 52"
  have x0: "x \<noteq> 0" and ax: "\<bar>x\<bar> = - x" and pos: "0 < \<bar>x\<bar>" using assms by auto
  have lo: "2 powi i \<le> - x" using ilog2_lower[OF pos] by (simp add: i_def ax)
  have "(2::rat) powi 0 \<le> \<bar>x\<bar>" using assms by simp
  also have "\<dots> < 2 powi (i + 1)" using ilog2_upper[OF pos] by (simp add: i_def)
  finally have "0 < i + 1" by (rule pow2_less_cancel)
  then have i0: "0 \<le> i" by simp
  have "x / 2 powi e \<le> - (2 powi i) / 2 powi e"
    using lo by (intro divide_right_mono) simp_all
  also have "\<dots> = of_int (- (2 ^ 52))" by (simp add: e_def power_int_diff)
  finally have "rne (x / 2 powi e) \<le> rne (of_int (- (2 ^ 52)))" by (rule rne_mono)
  then have "rne (x / 2 powi e) \<le> - (2 ^ 52)" by (simp only: rne_of_int)
  then have "(of_int (rne (x / 2 powi e)) :: rat) \<le> of_int (- (2 ^ 52))" by (simp only: of_int_le_iff)
  then have "of_int (rne (x / 2 powi e)) * 2 powi e \<le> of_int (- (2 ^ 52)) * (2::rat) powi e"
    by (intro mult_right_mono) simp_all
  also have "\<dots> = - (2 powi i)" by (simp add: e_def power_int_diff)
  also have "\<dots> \<le> - 1" using i0 by simp
  finally show ?thesis using x0 by (simp add: rnd_def i_def[symmetric] e_def[symmetric] Let_def)
qed

lemma sub_one_exact:
  assumes d: "is_double s" and lo: "1 / 2 \<le> s" and hi: "s \<le> 2"
  shows "rnd (s - 1) = s - 1"
proof -
  obtain k n where k: "\<bar>k\<bar> < 2 ^ 53" and s: "s = of_int k * 2 powi n"
    using d unfolding is_double_def by blast
  have "0 < s" using lo by simp
  moreover have "0 < (2::rat) powi n" by simp
  ultimately have "0 < (of_int k :: rat)" unfolding s by (rule zero_less_mult_pos2)
  then have kpos: "0 < k" by simp
  show ?thesis
  proof (cases "0 \<le> n")
    case True
    define K where "K = k * 2 ^ nat n"
    have sK: "s = of_int K" using True by (simp add: s K_def power_int_def)
    have "(of_int K :: rat) \<le> of_int 2" using hi by (simp add: sK)
    then have K2: "K \<le> 2" by (simp only: of_int_le_iff)
    have "(of_int 0 :: rat) < of_int K" using \<open>0 < s\<close> by (simp add: sK)
    then have K0: "0 < K" by (simp only: of_int_less_iff)
    have "s - 1 = of_int (K - 1) * 2 powi 0" by (simp add: sK)
    moreover have "\<bar>K - 1\<bar> < 2 ^ 53" using K0 K2 by simp
    ultimately show ?thesis using rnd_exact[of "K - 1" 0] by simp
  next
    case False
    define m where "m = nat (- n)"
    have pm: "(2::rat) powi n * 2 ^ m = 1" using False
      by (simp add: m_def power_int_def field_simps flip: power_inverse)
    have "1 / 2 * 2 ^ m \<le> s * 2 ^ m" using lo by (intro mult_right_mono) simp_all
    also have "\<dots> = of_int k" using pm by (simp add: s mult.assoc)
    finally have "(of_int (2 ^ m) :: rat) \<le> of_int (2 * k)" by simp
    then have m2k: "2 ^ m \<le> 2 * k" by (simp only: of_int_le_iff)
    define j where "j = k - 2 ^ m"
    have pos: "(0::int) < 2 ^ m" by simp
    have j: "\<bar>j\<bar> < 2 ^ 53" using k kpos m2k pos unfolding j_def by linarith
    have "(of_int j :: rat) * 2 powi n = of_int k * 2 powi n - 2 powi n * 2 ^ m"
      by (simp add: j_def algebra_simps)
    then have "s - 1 = of_int j * 2 powi n" using pm by (simp add: s)
    then show ?thesis using rnd_exact[OF j, of n] by simp
  qed
qed

lemma py_int_le_minus_one: "x \<le> - 1 \<Longrightarrow> py_int x \<le> - 1"
proof -
  assume a: "x \<le> - 1"
  then have "1 \<le> \<lfloor>- x\<rfloor>" by (simp add: le_floor_iff)
  then show ?thesis using a by (simp add: py_int_def)
qed

lemma rate_percent_negative:
  assumes "is_double s" "1 / 2 \<le> s" "s \<le> 99 / 100"
  shows "rate_percent s \<le> - 1"
proof -
  have "fsub s 1 = s - 1" using assms by (simp add: fsub_def sub_one_exact)
  moreover have "(s - 1) * 100 \<le> - 1" using assms(3) by simp
  ultimately have "fmul (fsub s 1) 100 \<le> - 1" by (simp add: fmul_def rnd_le_minus_one)
  then show ?thesis unfolding rate_percent_def by (rule py_int_le_minus_one)
qed

section \<open>The rate string\<close>

lemma str_nat_digits: "set (str_nat n) \<subseteq> set ''0123456789''"
proof (induction n rule: str_nat.induct)
  case (1 n)
  have d: "digit_char k \<in> set ''0123456789''" if "k < 10" for k
    unfolding digit_char_def using that by (intro nth_mem) simp
  show ?case
  proof (cases "n < 10")
    case True
    then show ?thesis using d[of n] by (subst str_nat.simps) simp
  next
    case False
    then show ?thesis using 1 d[of "n mod 10"] by (subst str_nat.simps) simp
  qed
qed

text \<open>
  C10. For a speed other than 1.0 the rate is a plus sign, then the decimal text of the
  truncated percentage, then a percent sign, whatever the sign of the percentage. For a
  speed from 0.5 to 0.99 the percentage is at most -1, so the rate reads plus, minus, digits,
  percent.
\<close>

theorem rate_plus_before_sign:
  "(s \<noteq> 1 \<longrightarrow> rate_of (Some s) = Inr (''+'' @ str_int (rate_percent s) @ ''%'')) \<and>
   (is_double s \<and> 1 / 2 \<le> s \<and> s \<le> 99 / 100 \<longrightarrow>
      rate_percent s \<le> - 1 \<and>
      rate_of (Some s) = Inr (''+-'' @ str_nat (nat (- rate_percent s)) @ ''%'') \<and>
      CHR ''-'' \<notin> set (str_nat (nat (- rate_percent s))))"
proof (intro conjI impI)
  assume "s \<noteq> 1"
  then show "rate_of (Some s) = Inr (''+'' @ str_int (rate_percent s) @ ''%'')"
    by (simp add: rate_of_def)
next
  assume a: "is_double s \<and> 1 / 2 \<le> s \<and> s \<le> 99 / 100"
  then show neg: "rate_percent s \<le> - 1" by (simp add: rate_percent_negative)
  have "s \<noteq> 1" using a by auto
  then show "rate_of (Some s) = Inr (''+-'' @ str_nat (nat (- rate_percent s)) @ ''%'')"
    using neg by (simp add: rate_of_def str_int_def)
  show "CHR ''-'' \<notin> set (str_nat (nat (- rate_percent s)))"
    using str_nat_digits[of "nat (- rate_percent s)"] by auto
qed

lemma is_double_half: "is_double (1 / 2)"
  unfolding is_double_def by (intro exI[of _ 1] exI[of _ "- 1"]) simp

theorem rate_plus_before_sign_witness:
  "is_double (1 / 2) \<and> (1 / 2 :: rat) \<noteq> 1 \<and> (1 / 2 :: rat) \<le> 99 / 100 \<and>
   rate_percent (1 / 2) \<le> - 1 \<and>
   rate_of (Some (1 / 2)) = Inr (''+-'' @ str_nat (nat (- rate_percent (1 / 2))) @ ''%'') \<and>
   rate_of (Some (1 / 2)) = Inr (''+'' @ str_int (rate_percent (1 / 2)) @ ''%'')"
  using rate_plus_before_sign[of "1 / 2"] is_double_half by (simp add: str_int_def)

lemma is_double_examples:
  "is_double 1" "is_double 2" "is_double (127 / 128)"
  unfolding is_double_def
  by (intro exI[of _ 1] exI[of _ 0], simp)
     (intro exI[of _ 1] exI[of _ 1], simp, intro exI[of _ 127] exI[of _ "- 7"], simp)

lemma scenario_requests_valid:
  "valid_TTSParameters hello" "valid_TTSParameters louder" "valid_TTSParameters shimmer_wav"
  "valid_TTSParameters (hello\<lparr>speed := Some (1 / 2)\<rparr>)"
  "valid_TTSParameters (hello\<lparr>speed := Some (127 / 128)\<rparr>)"
  using is_double_examples is_double_half
  by (simp_all add: valid_TTSParameters_def hello_def louder_def shimmer_wav_def)

text \<open>
  C10, as first stated, fails at the speed 0.9921875: it is a float below 1.0 within the
  bounds of the schema, its percentage truncates to 0, and the rate has no minus sign.
\<close>

theorem rate_just_below_one:
  "is_double (127 / 128) \<and> (1 / 2 :: rat) \<le> 127 / 128 \<and> (127 / 128 :: rat) < 1 \<and>
   rate_of (Some (127 / 128)) = Inr ''+0%'' \<and> CHR ''-'' \<notin> set ''+0%''"
proof -
  have "is_double (127 / 128)"
    unfolding is_double_def by (intro exI[of _ 127] exI[of _ "- 7"]) simp
  moreover have "rate_of (Some (127 / 128)) = Inr ''+0%''" by code_simp
  ultimately show ?thesis by simp
qed

text \<open>
  C7. The rate is a signed percentage for the speeds from 1.0 up: 1.3 gives \<open>+30%\<close> and 1.0
  gives \<open>+0%\<close>, and an enhanced model first brings the speed into the interval from 0.8
  to 1.5 (lemmas \<open>rate_examples\<close> and \<open>clamp_speed_range\<close> below). Below 1.0 it is not:
  the plus sign is written before the integer whatever its sign. The request \<open>hello\<close> with
  the speed set to 0.5 is admitted by the schema, and the rate handed to the provider is
  \<open>+-50%\<close>.
\<close>

theorem rate_of_half_speed:
  "map_option trace (serve quiet_env (hello\<lparr>speed := Some (1 / 2)\<rparr>) (StopAfter 1)) =
     Some [ListVoices, Communicate ''hello'' ''zh-CN-YunxiNeural'' ''+-50%'',
           Pull (Chunk ''audio'' [1, 2]), Yield [1, 2]]"
  by code_simp

lemma rate_examples:
  "compute_rate tts_1 (Some (rnd (13 / 10))) = Inr ''+30%''"
  "compute_rate tts_1 (Some 1) = Inr ''+0%''"
  "compute_rate tts_1_hd (Some 2) = Inr ''+50%''"
  "compute_rate tts_1_hd (Some (1 / 2)) = Inr ''+-19%''"
  "compute_rate tts_1 None = Inl TypeError"
  by code_simp+

lemma clamp_speed_range:
  assumes "quality cfg = ''enhanced''"
  shows "\<exists>s'. clamp_speed cfg (Some s) = Inr (Some s') \<and> rnd (4 / 5) \<le> s' \<and> s' \<le> 3 / 2"
proof -
  have "rnd (4 / 5) \<le> 3 / 2" by code_simp
  then show ?thesis using assms by (simp add: clamp_speed_def)
qed

section \<open>Reading traces\<close>

lemma yields_append: "yields (s @ t) = yields s @ yields t"
  by (induction s rule: yields.induct) simp_all

lemma pulled_append: "pulled (s @ t) = pulled s @ pulled t"
  by (induction s rule: pulled.induct) simp_all


section \<open>The writer\<close>

lemma write_loop_exn: "snd (write_loop s d n cs) = Some e \<Longrightarrow> e = PipeError"
  by (induction cs arbitrary: n) (auto simp: split_beta split: if_splits)

lemma write_loop_no_close: "CloseStdin \<notin> set (fst (write_loop s d n cs))"
  by (induction cs arbitrary: n) (auto simp: split_beta split: if_splits)



lemma write_loop_None: "snd (write_loop s None n cs) = None"
  by (induction cs arbitrary: n) (auto simp: split_beta)

lemma write_audio_try_exn:
  "snd (write_audio_try src s d) = Some e \<Longrightarrow> is_Exception e"
  using write_loop_exn[of s d 0 "chunks src"]
  by (auto simp: write_audio_try_def split_beta split: option.splits if_splits)

lemma write_audio_returns: "snd (write_audio src s d) = None"
proof (cases "write_audio_try src s d")
  case (Pair t x)
  show ?thesis
  proof (cases x)
    case None
    then show ?thesis using Pair by (simp add: write_audio_def)
  next
    case (Some e)
    then have "is_Exception e" using write_audio_try_exn[of src s d e] Pair by simp
    then show ?thesis using Pair Some by (simp add: write_audio_def)
  qed
qed

lemma writer_task_returns: "snd (writer_task E src) = None"
  by (simp add: writer_task_def write_audio_returns)

lemma write_audio_exhausted:
  assumes "failure src = None"
  shows "write_audio src True None =
           (fst (write_loop True None 0 (chunks src)) @ [CloseStdin, WaitClosed], None)"
  using assms write_loop_None[of True 0 "chunks src"]
  by (cases "write_loop True None 0 (chunks src)") (simp add: write_audio_def write_audio_try_def)

lemma write_audio_failed_source:
  assumes "failure src = Some m"
  shows "CloseStdin \<notin> set (fst (write_audio src s d))"
  using assms write_loop_no_close[of s d 0 "chunks src"] write_loop_exn[of s d 0 "chunks src"]
  by (cases "write_loop s d 0 (chunks src)")
     (auto simp: write_audio_def write_audio_try_def split: option.splits)

section \<open>The two loops\<close>




lemma direct_loop_actions:
  "a \<in> set (fst (direct_loop c n chs f)) \<Longrightarrow> (\<exists>b. a = Yield b) \<or> (\<exists>ch. a = Pull ch)"
  by (induction chs arbitrary: n) (auto simp: split_beta split: if_splits option.splits)

lemma direct_loop_yields:
  "yields (fst (direct_loop c n chs f)) =
     map chunk_data (filter is_audio (pulled (fst (direct_loop c n chs f))))"
  by (induction chs arbitrary: n) (auto simp: is_audio_def split_beta split: option.splits)

lemma direct_loop_pull_all: "pulled (fst (direct_loop PullAll n chs f)) = chs"
  by (induction chs arbitrary: n) (auto simp: split_beta split: option.splits)

lemma direct_loop_stop:
  "n < m \<Longrightarrow> n + length (yields (fst (direct_loop (StopAfter m) n chs f))) \<le> m"
proof (induction chs arbitrary: n)
  case Nil
  then show ?case by (simp split: option.splits)
next
  case (Cons ch chs)
  show ?case
  proof (cases "chunk_type ch = ''audio''")
    case audio: True
    show ?thesis
    proof (cases "m = Suc n")
      case True
      then show ?thesis using audio by simp
    next
      case False
      then have "Suc n < m" using Cons.prems by simp
      from Cons.IH[OF this] False audio show ?thesis by (simp add: split_beta)
    qed
  next
    case False
    then show ?thesis using Cons.IH[OF Cons.prems] by (simp add: split_beta)
  qed
qed

lemma direct_loop_cancel:
  "n \<le> m \<Longrightarrow> n + length (yields (fst (direct_loop (CancelAtRead m) n chs f))) \<le> m"
proof (induction chs arbitrary: n)
  case Nil
  then show ?case by (simp split: option.splits)
next
  case (Cons ch chs)
  show ?case
  proof (cases "m = n")
    case True
    then show ?thesis by simp
  next
    case neq: False
    show ?thesis
    proof (cases "chunk_type ch = ''audio''")
      case True
      have "Suc n \<le> m" using Cons.prems neq by simp
      from Cons.IH[OF this] True neq show ?thesis by (simp add: split_beta)
    next
      case False
      then show ?thesis using Cons.IH[OF Cons.prems] neq by (simp add: split_beta)
    qed
  qed
qed

section \<open>The generator\<close>

lemma prepend_simps [simp]:
  "trace (prepend ts r) = ts @ trace r"
  "result (prepend ts r) = result r"
  "process (prepend ts r) = process r"
  by (simp_all add: prepend_def)



lemma log_and_reraise_simps [simp]:
  "result (log_and_reraise r) = result r"
  "process (log_and_reraise r) = process r"
  by (simp_all add: log_and_reraise_def split: outcome.splits)

lemma log_and_reraise_trace:
  "\<exists>logs. trace (log_and_reraise r) = trace r @ logs \<and> (\<forall>a\<in>set logs. is_Log a)"
  by (cases "result r") (auto simp: log_and_reraise_def)

lemma yields_logs: "\<forall>a\<in>set logs. is_Log a \<Longrightarrow> yields logs = []"
  by (induction logs rule: yields.induct) simp_all

lemma pulled_logs: "\<forall>a\<in>set logs. is_Log a \<Longrightarrow> pulled logs = []"
  by (induction logs rule: pulled.induct) simp_all

lemma yields_log_and_reraise [simp]: "yields (trace (log_and_reraise r)) = yields (trace r)"
  using log_and_reraise_trace[of r] by (auto simp: yields_append yields_logs)

lemma pulled_log_and_reraise [simp]: "pulled (trace (log_and_reraise r)) = pulled (trace r)"
  using log_and_reraise_trace[of r] by (auto simp: pulled_append pulled_logs)




lemma generate_try_cases:
  obtains
    (early) e where
      "generate_try E txt cfg vc spd vol c =
         \<lparr>trace = [ListVoices], result = Raises e, process = Not_spawned\<rparr>"
  | (refused) rate m where
      "generate_try E txt cfg vc spd vol c =
         \<lparr>trace = [ListVoices, Communicate txt (real_voice_of cfg vc) rate],
          result = Raises (Raised m), process = Not_spawned\<rparr>"
  | (filter) rate src where "vol \<noteq> Some 1"
      "communicate E txt (real_voice_of cfg vc) rate = Inr src"
      "generate_try E txt cfg vc spd vol c =
         prepend [ListVoices, Communicate txt (real_voice_of cfg vc) rate]
           (filtered E src (str_volume E vol) c)"
  | (bypass) rate src where "vol = Some 1"
      "communicate E txt (real_voice_of cfg vc) rate = Inr src"
      "generate_try E txt cfg vc spd vol c =
         prepend [ListVoices, Communicate txt (real_voice_of cfg vc) rate] (direct src c)"
  unfolding generate_try_def Let_def
  by (cases "list_voices E"; cases "compute_rate cfg spd";
      cases "communicate E txt (real_voice_of cfg vc) (projr (compute_rate cfg spd))";
      cases "vol = Some 1"; cases "real_voice_of cfg vc \<in> set (projr (list_voices E))")
     (simp_all)

lemma generate_started:
  "c \<noteq> StopAfter 0 \<Longrightarrow>
     generate_edge_audio E txt cfg vc spd vol c = log_and_reraise (generate_try E txt cfg vc spd vol c)"
  by (simp add: generate_edge_audio_def)

lemma generate_not_started:
  "generate_edge_audio E txt cfg vc spd vol (StopAfter 0) =
     \<lparr>trace = [], result = Raises GeneratorExit, process = Not_spawned\<rparr>"
  by (simp add: generate_edge_audio_def)

lemma direct_simps [simp]:
  "trace (direct src c) = fst (direct_loop c 0 (chunks src) (failure src))"
  "result (direct src c) = snd (direct_loop c 0 (chunks src) (failure src))"
  "process (direct src c) = Not_spawned"
  by (simp_all add: direct_def split_beta)












lemma generate_try_streaming:
  assumes "list_voices E = Inr vs" "real_voice_of cfg vc \<in> set vs"
    "compute_rate cfg spd = Inr rate" "communicate E tx (real_voice_of cfg vc) rate = Inr src"
  shows "generate_try E tx cfg vc spd vol c =
           prepend [ListVoices, Communicate tx (real_voice_of cfg vc) rate]
             (if vol \<noteq> Some 1 then filtered E src (str_volume E vol) c else direct src c)"
  using assms by (simp add: generate_try_def)

lemma not_spawn_direct_loop: "a \<in> set (fst (direct_loop c n chs f)) \<Longrightarrow> \<not> is_Spawn a"
  using direct_loop_actions[of a c n chs f] by auto

lemma log_not_spawn: "is_Log a \<Longrightarrow> \<not> is_Spawn a"
  by (cases a) simp_all

text \<open>
  C2. With a volume of 1.0 no process is spawned, and the blocks yielded are, in order, the
  data of exactly the audio chunks that were pulled from the provider's stream; so the bytes
  sent are their concatenation. A consumer that pulls to the end of an accepted request gets
  every chunk of the stream pulled.
\<close>

theorem bypass_output:
  fixes E tx cfg vc spd c
  defines "r \<equiv> generate_edge_audio E tx cfg vc spd (Some 1) c"
  shows "(\<forall>a\<in>set (trace r). \<not> is_Spawn a) \<and> process r = Not_spawned \<and>
         yields (trace r) = map chunk_data (filter is_audio (pulled (trace r))) \<and>
         concat (yields (trace r)) = concat (map chunk_data (filter is_audio (pulled (trace r)))) \<and>
         (\<forall>vs rate src.
            c = PullAll \<and> list_voices E = Inr vs \<and> real_voice_of cfg vc \<in> set vs \<and>
            compute_rate cfg spd = Inr rate \<and>
            communicate E tx (real_voice_of cfg vc) rate = Inr src \<longrightarrow>
            pulled (trace r) = chunks src)"
proof (cases "c = StopAfter 0")
  case True
  then show ?thesis by (simp add: r_def generate_not_started)
next
  case started: False
  define g where "g = generate_try E tx cfg vc spd (Some 1) c"
  have r: "r = log_and_reraise g"
    using started by (simp add: r_def g_def generate_started)
  obtain logs where logs: "trace r = trace g @ logs" "\<forall>a\<in>set logs. is_Log a"
    using log_and_reraise_trace[of g] r by auto
  have nl: "\<forall>a\<in>set logs. \<not> is_Spawn a" using logs(2) log_not_spawn by blast
  have g: "(\<forall>a\<in>set (trace g). \<not> is_Spawn a) \<and> process g = Not_spawned \<and>
           yields (trace g) = map chunk_data (filter is_audio (pulled (trace g)))"
  proof (cases rule: generate_try_cases[of E tx cfg vc spd "Some 1" c])
    case (early e)
    then show ?thesis by (simp add: g_def)
  next
    case (refused rate m)
    then show ?thesis by (simp add: g_def)
  next
    case (filter rate src)
    then show ?thesis by simp
  next
    case (bypass rate src)
    then show ?thesis
      using not_spawn_direct_loop[of _ c 0 "chunks src" "failure src"]
        direct_loop_yields[of c 0 "chunks src" "failure src"]
      by (auto simp: g_def)
  qed
  have all: "pulled (trace r) = chunks src"
    if "c = PullAll" "list_voices E = Inr vs" "real_voice_of cfg vc \<in> set vs"
      "compute_rate cfg spd = Inr rate" "communicate E tx (real_voice_of cfg vc) rate = Inr src"
    for vs rate src
    using generate_try_streaming[OF that(2-5), of "Some 1" c] that(1) r
    by (simp add: g_def direct_loop_pull_all)
  have y: "yields (trace r) = map chunk_data (filter is_audio (pulled (trace r)))"
    using g r by simp
  show ?thesis using g nl logs(1) r y all by auto
qed

theorem bypass_output_witness:
  "list_voices quiet_env = Inr catalogue \<and> real_voice_of tts_1 ''nova'' \<in> set catalogue \<and>
   compute_rate tts_1 (Some 1) = Inr ''+0%'' \<and>
   communicate quiet_env ''hello'' (real_voice_of tts_1 ''nova'') ''+0%'' = Inr three_chunks \<and>
   pulled (trace (generate_edge_audio quiet_env ''hello'' tts_1 ''nova'' (Some 1) (Some 1) PullAll)) =
     chunks three_chunks \<and>
   yields (trace (generate_edge_audio quiet_env ''hello'' tts_1 ''nova'' (Some 1) (Some 1) PullAll)) =
     [[1, 2], [3]]"
proof -
  have a: "list_voices quiet_env = Inr catalogue" by (simp add: quiet_env_def)
  have b: "real_voice_of tts_1 ''nova'' \<in> set catalogue" by code_simp
  have c: "compute_rate tts_1 (Some 1) = Inr ''+0%''" by code_simp
  have d: "communicate quiet_env ''hello'' (real_voice_of tts_1 ''nova'') ''+0%'' = Inr three_chunks"
    by (simp add: quiet_env_def)
  have e: "map chunk_data (filter is_audio (chunks three_chunks)) = [[1, 2], [3]]"
    by (simp add: three_chunks_def is_audio_def)
  show ?thesis
    using bypass_output[of quiet_env "''hello''" tts_1 "''nova''" "Some 1" PullAll] a b c d e
    by simp
qed

text \<open>
  The default request, served to the end: the voice \<open>nova\<close> resolves to
  \<open>zh-CN-YunxiNeural\<close>, the rate is \<open>+0%\<close>, nothing is spawned and the body is the data of
  the two audio chunks. The same request with the volume 2.0: one process, the blocks of the
  filter, then the clean-up.
\<close>

lemma scenario_runs:
  "serve quiet_env hello PullAll =
     Some \<lparr>trace = [ListVoices, Communicate ''hello'' ''zh-CN-YunxiNeural'' ''+0%'',
                    Pull (Chunk ''audio'' [1, 2]), Yield [1, 2], Pull (Chunk ''WordBoundary'' []),
                    Pull (Chunk ''audio'' [3]), Yield [3]],
           result = Finished, process = Not_spawned\<rparr>"
  "serve quiet_env louder PullAll =
     Some \<lparr>trace = [ListVoices, Communicate ''hello'' ''zh-CN-YunxiNeural'' ''+0%'',
                    Spawn [''ffmpeg'', ''-i'', ''pipe:0'', ''-af'', ''volume=2.0'', ''-f'', ''mp3'',
                           ''-loglevel'', ''quiet'', ''pipe:1''] PIPE PIPE PIPE,
                    CreateTask, Yield [7], Yield [8, 9], CloseStdin, WaitProc, CancelWriter,
                    AwaitWriter],
           result = Finished, process = Exited\<rparr>"
  by code_simp+

section \<open>The endpoint\<close>


lemma create_speech_try_raises:
  "create_speech_try request = Inl e \<Longrightarrow> \<exists>d. e = HTTPException 400 d"
  by (auto simp: create_speech_try_def Let_def split: option.splits if_splits)

lemma create_speech_raises:
  "create_speech request = Inl e \<Longrightarrow> \<exists>d. e = HTTPException 400 d"
  using create_speech_try_raises[of request]
  by (cases "create_speech_try request") (auto simp: create_speech_def create_speech_except_def)

lemma create_speech_rejects:
  "create_speech_try request = Inl (HTTPException 400 d) \<Longrightarrow>
     create_speech request = Inl (HTTPException 400 d)"
  by (simp add: create_speech_def create_speech_except_def)


text \<open>
  C6. A request with an unknown model, with a format the model does not allow, or with a
  voice outside the model's voice map makes the endpoint raise an \<open>HTTPException\<close> with
  status 400, and the endpoint raises nothing else. The second handler turns any other
  exception into a returned dictionary with the fields message, type and code, which goes out
  with status 200.
\<close>

theorem endpoint_errors:
  "(map_of MODEL_CONFIG (model request) = None \<longrightarrow>
      create_speech request = Inl (HTTPException 400 (Unsupported_model (model request)))) \<and>
   (map_of MODEL_CONFIG (model request) = Some cfg \<and>
    (\<forall>f. response_format request = Some f \<longrightarrow> f \<notin> set (allowed_formats cfg)) \<longrightarrow>
      create_speech request =
        Inl (HTTPException 400 (Unsupported_format (model request) (response_format request)))) \<and>
   (map_of MODEL_CONFIG (model request) = Some cfg \<and> response_format request = Some f \<and>
    f \<in> set (allowed_formats cfg) \<and> map_of (voice_map cfg) (lower (voice request)) = None \<longrightarrow>
      create_speech request =
        Inl (HTTPException 400 (Unsupported_voice (model request) (voice request)))) \<and>
   (\<forall>x. create_speech request = Inl x \<longrightarrow>
      (\<exists>d. x = HTTPException 400 d) \<and> http_status (create_speech request) = Some 400) \<and>
   (is_Exception e \<and> (\<forall>k d. e \<noteq> HTTPException k d) \<longrightarrow>
      create_speech_except e =
        Inr (Error_dict \<lparr>message = e, error_type = ''invalid_request_error'', code = 500\<rparr>) \<and>
      http_status (create_speech_except e) = Some 200)"
proof (intro conjI impI allI)
  assume "map_of MODEL_CONFIG (model request) = None"
  then show "create_speech request = Inl (HTTPException 400 (Unsupported_model (model request)))"
    by (intro create_speech_rejects) (simp add: create_speech_try_def)
next
  assume "map_of MODEL_CONFIG (model request) = Some cfg \<and>
          (\<forall>f. response_format request = Some f \<longrightarrow> f \<notin> set (allowed_formats cfg))"
  then show "create_speech request =
        Inl (HTTPException 400 (Unsupported_format (model request) (response_format request)))"
    by (intro create_speech_rejects) (auto simp: create_speech_try_def split: option.splits)
next
  assume "map_of MODEL_CONFIG (model request) = Some cfg \<and> response_format request = Some f \<and>
    f \<in> set (allowed_formats cfg) \<and> map_of (voice_map cfg) (lower (voice request)) = None"
  then show "create_speech request =
        Inl (HTTPException 400 (Unsupported_voice (model request) (voice request)))"
    by (intro create_speech_rejects) (simp add: create_speech_try_def)
next
  fix x assume x: "create_speech request = Inl x"
  then show "\<exists>d. x = HTTPException 400 d" by (rule create_speech_raises)
  then show "http_status (create_speech request) = Some 400"
    using x by (auto simp: http_status_def)
next
  assume e: "is_Exception e \<and> (\<forall>k d. e \<noteq> HTTPException k d)"
  then show c: "create_speech_except e =
        Inr (Error_dict \<lparr>message = e, error_type = ''invalid_request_error'', code = 500\<rparr>)"
    by (cases e) (simp_all add: create_speech_except_def)
  show "http_status (create_speech_except e) = Some 200"
    unfolding c by (simp add: http_status_def)
qed

theorem endpoint_errors_witness:
  "map_of MODEL_CONFIG (model (hello\<lparr>model := ''gpt''\<rparr>)) = None \<and>
   create_speech (hello\<lparr>model := ''gpt''\<rparr>) = Inl (HTTPException 400 (Unsupported_model ''gpt'')) \<and>
   http_status (create_speech (hello\<lparr>model := ''gpt''\<rparr>)) = Some 400 \<and>
   map_of MODEL_CONFIG (model shimmer_wav) = Some tts_1 \<and>
   create_speech shimmer_wav = Inl (HTTPException 400 (Unsupported_format ''tts-1'' (Some ''wav''))) \<and>
   map_of (voice_map tts_1) (lower (voice (hello\<lparr>voice := ''Shimmer''\<rparr>))) = None \<and>
   create_speech (hello\<lparr>voice := ''Shimmer''\<rparr>) =
     Inl (HTTPException 400 (Unsupported_voice ''tts-1'' ''Shimmer'')) \<and>
   is_Exception (ValueError ''boom'') \<and>
   create_speech_except (ValueError ''boom'') =
     Inr (Error_dict \<lparr>message = ValueError ''boom'', error_type = ''invalid_request_error'',
                     code = 500\<rparr>) \<and>
   http_status (create_speech_except (ValueError ''boom'')) = Some 200"
proof -
  have a: "map_of MODEL_CONFIG (model (hello\<lparr>model := ''gpt''\<rparr>)) = None" by code_simp
  have b: "map_of MODEL_CONFIG (model shimmer_wav) = Some tts_1" by code_simp
  have b': "\<forall>f. response_format shimmer_wav = Some f \<longrightarrow> f \<notin> set (allowed_formats tts_1)"
    by (simp add: shimmer_wav_def hello_def tts_1_def)
  have c: "map_of MODEL_CONFIG (model (hello\<lparr>voice := ''Shimmer''\<rparr>)) = Some tts_1" by code_simp
  have c': "response_format (hello\<lparr>voice := ''Shimmer''\<rparr>) = Some ''mp3''" by (simp add: hello_def)
  have c'': "''mp3'' \<in> set (allowed_formats tts_1)" by (simp add: tts_1_def)
  have d: "map_of (voice_map tts_1) (lower (voice (hello\<lparr>voice := ''Shimmer''\<rparr>))) = None"
    by code_simp
  have m: "model (hello\<lparr>model := ''gpt''\<rparr>) = ''gpt''" "model shimmer_wav = ''tts-1''"
    "model (hello\<lparr>voice := ''Shimmer''\<rparr>) = ''tts-1''" "voice (hello\<lparr>voice := ''Shimmer''\<rparr>) = ''Shimmer''"
    "response_format shimmer_wav = Some ''wav''"
    by (simp_all add: hello_def shimmer_wav_def)
  show ?thesis
    using endpoint_errors[of "hello\<lparr>model := ''gpt''\<rparr>" tts_1 "''mp3''" "ValueError ''boom''"]
      endpoint_errors[of shimmer_wav tts_1 "''mp3''" "ValueError ''boom''"]
      endpoint_errors[of "hello\<lparr>voice := ''Shimmer''\<rparr>" tts_1 "''mp3''" "ValueError ''boom''"]
      a b b' c c' c'' d m
    by (simp add: http_status_def)
qed




section \<open>Serving a request\<close>





section \<open>The filter process\<close>











section \<open>A failure of the provider in the middle of a filtered stream\<close>

lemma read_loop_only_blocks:
  "\<forall>x\<in>set rs. \<exists>b. x = Inr b \<and> b \<noteq> [] \<Longrightarrow> snd (read_loop PullAll n rs) = Blocked"
  by (induction rs arbitrary: n) (auto simp: split_beta)

text \<open>
  After a failure of the provider's stream the writer leaves the input of the filter open.
  A filter that goes on waiting for input does not end its output, so the reads deliver
  blocks and then never return: a consumer that keeps pulling gets a generator that hangs.
\<close>

lemma source_failure_hangs:
  assumes "list_voices E = Inr vs" "real_voice_of cfg vc \<in> set vs"
    "compute_rate cfg spd = Inr rate" "communicate E tx (real_voice_of cfg vc) rate = Inr src"
    and "vol \<noteq> Some 1" "spawn_error E = None" "failure src = Some m"
    and "\<forall>x\<in>set (reads E). \<exists>b. x = Inr b \<and> b \<noteq> []"
  shows "CloseStdin \<notin> set (fst (writer_task E src)) \<and> snd (writer_task E src) = None \<and>
         result (generate_edge_audio E tx cfg vc spd vol PullAll) = Hangs \<and>
         process (generate_edge_audio E tx cfg vc spd vol PullAll) = Running"
proof -
  have w: "CloseStdin \<notin> set (fst (writer_task E src))"
    using write_audio_failed_source[OF assms(7)] by (simp add: writer_task_def)
  have b: "snd (read_loop PullAll 0 (reads E)) = Blocked"
    using assms(8) by (rule read_loop_only_blocks)
  have "filtered E src (str_volume E vol) PullAll =
          \<lparr>trace = [Spawn (ffmpeg_cmd (str_volume E vol)) PIPE PIPE PIPE, CreateTask] @
                   fst (read_loop PullAll 0 (reads E)),
           result = Hangs, process = Running\<rparr>"
    using assms(6) b
    by (cases "read_loop PullAll 0 (reads E)") (simp add: filtered_def prepend_def)
  then have "result (generate_try E tx cfg vc spd vol PullAll) = Hangs \<and>
             process (generate_try E tx cfg vc spd vol PullAll) = Running"
    using generate_try_streaming[OF assms(1-4), of vol PullAll] assms(5) by simp
  then show ?thesis using w writer_task_returns[of E src] by (simp add: generate_started)
qed

text \<open>
  C4. The writer never raises into the reader (\<open>write_audio_returns\<close>), and when the
  stream ends without failure it closes the input of the filter and waits for the closure
  (\<open>write_audio_exhausted\<close>). After a failure it does not close the input
  (\<open>write_audio_failed_source\<close>): the close sits on the path without failure only. Here the
  provider delivers one audio chunk and fails. The writer writes the chunk, logs the failure
  and returns. The filter has emitted one block and waits for more input, so the next read of
  its output never returns: the generator yields that block and hangs, the process running,
  until its consumer gives up (\<open>source_failure_hangs\<close> is the general statement).
\<close>

theorem writer_failure_leaves_input_open:
  "writer_task starved_env failing_source =
     ([Pull (Chunk ''audio'' [1, 2]), Write [1, 2], Drain,
       Log (Write_failed (Raised ''connection lost''))], None) \<and>
   serve starved_env louder PullAll =
     Some \<lparr>trace = [ListVoices, Communicate ''hello'' ''zh-CN-YunxiNeural'' ''+0%'',
                    Spawn [''ffmpeg'', ''-i'', ''pipe:0'', ''-af'', ''volume=2.0'', ''-f'', ''mp3'',
                           ''-loglevel'', ''quiet'', ''pipe:1''] PIPE PIPE PIPE,
                    CreateTask, Yield [7]],
           result = Hangs, process = Running\<rparr>"
  by code_simp

end
